theory Spec2Isabelle
  imports Main
begin

section \<open>Unicode strings of the interpreter\<close>

text \<open>
  The module \<^verbatim>\<open>lgr/tools/utils.py\<close> is Python 2 code (\<^verbatim>\<open>unicode\<close>, \<^verbatim>\<open>unichr\<close>)
  working on Unicode strings. A string is the list of its code points, a character is
  one code point, \<^verbatim>\<open>ord\<close> reads it and \<^verbatim>\<open>unichr\<close> builds the one-character
  string (a build with 32-bit characters is assumed, so that every code point up to
  U+10FFFF is one character).
\<close>

type_synonym uchar = nat
type_synonym ustring = "uchar list"

definition u :: "string \<Rightarrow> ustring" where
  "u s = map of_char s"

definition py_ord :: "uchar \<Rightarrow> nat" where
  "py_ord c = c"

definition unichr :: "nat \<Rightarrow> ustring" where
  "unichr c = [c]"

text \<open>
  The character tables of the interpreter (white space, case mapping, decimal digits)
  and the text it prints for its own exceptions are not part of the repository. The
  ASCII range is written out as the interpreter defines it; beyond ASCII the tables
  are a parameter of the model, so that every theorem holds for any Unicode version.
\<close>

record runtime =
  is_whitespace :: "uchar \<Rightarrow> bool"
  to_upper :: "uchar \<Rightarrow> uchar"
  to_lower :: "uchar \<Rightarrow> uchar"
  to_decimal :: "uchar \<Rightarrow> nat option"
  repr_text :: "ustring \<Rightarrow> ustring"
  encode_error_text :: "ustring \<Rightarrow> ustring"

text \<open>\<^verbatim>\<open>unicode.isspace\<close> on one character: TAB, LF, VT, FF, CR, FS, GS, RS, US and
  SPACE in ASCII.\<close>

definition is_space :: "runtime \<Rightarrow> uchar \<Rightarrow> bool" where
  "is_space rt c =
     (if c < 128 then (9 \<le> c \<and> c \<le> 13) \<or> (28 \<le> c \<and> c \<le> 32)
      else is_whitespace rt c)"

definition upper_char :: "runtime \<Rightarrow> uchar \<Rightarrow> uchar" where
  "upper_char rt c =
     (if c < 128 then (if 97 \<le> c \<and> c \<le> 122 then c - 32 else c) else to_upper rt c)"

definition lower_char :: "runtime \<Rightarrow> uchar \<Rightarrow> uchar" where
  "lower_char rt c =
     (if c < 128 then (if 65 \<le> c \<and> c \<le> 90 then c + 32 else c) else to_lower rt c)"

text \<open>\<^verbatim>\<open>s.upper()\<close> and \<^verbatim>\<open>s.lower()\<close> map character by character.\<close>

definition upper :: "runtime \<Rightarrow> ustring \<Rightarrow> ustring" where
  "upper rt s = map (upper_char rt) s"

definition lower :: "runtime \<Rightarrow> ustring \<Rightarrow> ustring" where
  "lower rt s = map (lower_char rt) s"

text \<open>\<^verbatim>\<open>s.strip()\<close> removes the white space at both ends.\<close>

definition strip :: "runtime \<Rightarrow> ustring \<Rightarrow> ustring" where
  "strip rt s = rev (dropWhile (is_space rt) (rev (dropWhile (is_space rt) s)))"

text \<open>\<^verbatim>\<open>s.split()\<close> cuts at every run of white space and returns no empty token;
  \<open>cur\<close> is the token being read.\<close>

fun split_from :: "runtime \<Rightarrow> ustring \<Rightarrow> ustring \<Rightarrow> ustring list" where
  "split_from rt cur [] = (if cur = [] then [] else [cur])"
| "split_from rt cur (c # cs) =
     (if is_space rt c
      then (if cur = [] then split_from rt [] cs else cur # split_from rt [] cs)
      else split_from rt (cur @ [c]) cs)"

definition split :: "runtime \<Rightarrow> ustring \<Rightarrow> ustring list" where
  "split rt s = split_from rt [] s"

text \<open>\<^verbatim>\<open>s.startswith(p)\<close>, \<^verbatim>\<open>p in s\<close> for a string \<open>p\<close>, and \<^verbatim>\<open>s.find(c)\<close>
  for a character that occurs in \<open>s\<close>.\<close>

definition startswith :: "ustring \<Rightarrow> ustring \<Rightarrow> bool" where
  "startswith s p = (take (length p) s = p)"

fun contains :: "ustring \<Rightarrow> ustring \<Rightarrow> bool" where
  "contains p [] = (p = [])"
| "contains p (c # cs) = (startswith (c # cs) p \<or> contains p cs)"

definition find_char :: "uchar \<Rightarrow> ustring \<Rightarrow> nat" where
  "find_char c s = length (takeWhile (\<lambda>x. x \<noteq> c) s)"

text \<open>\<^verbatim>\<open>s.split('\n')[-1]\<close>: what follows the last line feed.\<close>

definition last_line :: "ustring \<Rightarrow> ustring" where
  "last_line s = rev (takeWhile (\<lambda>x. x \<noteq> 10) (rev s))"

section \<open>Exceptions\<close>

text \<open>
  What the parsing functions can raise: the two errors of \<^verbatim>\<open>int(s, 16)\<close> (a
  \<^verbatim>\<open>ValueError\<close> with the literal it rejected, a \<^verbatim>\<open>UnicodeEncodeError\<close> for a
  character that is no digit and not in Latin-1), the two \<^verbatim>\<open>ValueError\<close>s the module
  raises itself, and whatever the IDNA decoder raises, with its message.
\<close>

datatype parse_error =
    InvalidLiteral ustring
  | NotDecimal ustring
  | CodePointOutOfRange
  | SpacesNotPermitted ustring
  | DecoderError ustring

text \<open>\<^verbatim>\<open>unicode(ex)\<close>, the message of the exception.\<close>

definition unicode_of :: "runtime \<Rightarrow> parse_error \<Rightarrow> ustring" where
  "unicode_of rt ex =
     (case ex of
        InvalidLiteral b \<Rightarrow> u ''invalid literal for int() with base 16: '' @ repr_text rt b
      | NotDecimal s \<Rightarrow> encode_error_text rt s
      | CodePointOutOfRange \<Rightarrow> u ''code point value must be in the range [0, U+10FFFF]''
      | SpacesNotPermitted s \<Rightarrow>
          u ''Label '' @ [39] @ s @ [39] @ u '' contains spaces that are not PVALID for IDNA2008''
      | DecoderError m \<Rightarrow> m)"

section \<open>The built-in \<^verbatim>\<open>int(s, 16)\<close>\<close>

text \<open>
  On a Unicode string, \<^verbatim>\<open>int\<close> first turns every white space character into a
  space and every decimal digit of any script into its ASCII digit, keeps the other
  Latin-1 characters but NUL, and rejects the rest. The bytes are then read as: spaces,
  an optional sign, spaces, an optional \<^verbatim>\<open>0x\<close> that a hex digit follows, hex digits,
  spaces. At least one digit is required; the value is not bounded.
\<close>

definition decimal_of :: "runtime \<Rightarrow> uchar \<Rightarrow> nat option" where
  "decimal_of rt c =
     (if c < 128 then (if 48 \<le> c \<and> c \<le> 57 then Some (c - 48) else None)
      else to_decimal rt c)"

definition encode_decimal_char :: "runtime \<Rightarrow> uchar \<Rightarrow> nat option" where
  "encode_decimal_char rt c =
     (if is_space rt c then Some 32
      else case decimal_of rt c of
             Some d \<Rightarrow> Some (48 + d)
           | None \<Rightarrow> if 0 < c \<and> c < 256 then Some c else None)"

fun encode_decimal :: "runtime \<Rightarrow> ustring \<Rightarrow> nat list option" where
  "encode_decimal rt [] = Some []"
| "encode_decimal rt (c # cs) =
     (case encode_decimal_char rt c of
        None \<Rightarrow> None
      | Some b \<Rightarrow> (case encode_decimal rt cs of None \<Rightarrow> None | Some bs \<Rightarrow> Some (b # bs)))"

definition hex_digit :: "nat \<Rightarrow> nat option" where
  "hex_digit b =
     (if 48 \<le> b \<and> b \<le> 57 then Some (b - 48)
      else if 97 \<le> b \<and> b \<le> 102 then Some (b - 87)
      else if 65 \<le> b \<and> b \<le> 70 then Some (b - 55)
      else None)"

definition is_hex :: "nat \<Rightarrow> bool" where
  "is_hex b = (hex_digit b \<noteq> None)"

fun hex_value :: "nat \<Rightarrow> nat list \<Rightarrow> nat" where
  "hex_value acc [] = acc"
| "hex_value acc (b # bs) = hex_value (acc * 16 + the (hex_digit b)) bs"

fun skip_0x :: "nat list \<Rightarrow> nat list" where
  "skip_0x (z # x # d # bs) =
     (if z = 48 \<and> (x = 120 \<or> x = 88) \<and> is_hex d then d # bs else z # x # d # bs)"
| "skip_0x bs = bs"

definition py_int16 :: "runtime \<Rightarrow> ustring \<Rightarrow> parse_error + int" where
  "py_int16 rt s =
     (case encode_decimal rt s of
        None \<Rightarrow> Inl (NotDecimal s)
      | Some b \<Rightarrow>
          let b1 = dropWhile (\<lambda>c. c = 32) b;
              negative = (take 1 b1 = [45]);
              b2 = (if take 1 b1 = [43] \<or> take 1 b1 = [45] then drop 1 b1 else b1);
              b3 = skip_0x (dropWhile (\<lambda>c. c = 32) b2);
              digits = takeWhile is_hex b3;
              rest = dropWhile (\<lambda>c. c = 32) (dropWhile is_hex b3)
          in if digits = [] \<or> rest \<noteq> [] then Inl (InvalidLiteral (take 200 b1))
             else Inr (if negative then - int (hex_value 0 digits)
                       else int (hex_value 0 digits)))"

section \<open>Parsing code points and labels\<close>

definition parse_single_cp_input :: "runtime \<Rightarrow> ustring \<Rightarrow> parse_error + nat" where
  "parse_single_cp_input rt s0 =
     (let s = strip rt s0 in
      if length s = 1 then Inr (py_ord (hd s))
      else
        case (if upper rt (take 2 s) = u ''U+'' then py_int16 rt (drop 2 s)
              else py_int16 rt s) of
          Inl e \<Rightarrow> Inl e
        | Inr v \<Rightarrow> if v < 0 \<or> v > 0x10FFFF then Inl CodePointOutOfRange else Inr (nat v))"

text \<open>The list comprehension stops at the first token that raises.\<close>

fun parse_tokens :: "runtime \<Rightarrow> ustring list \<Rightarrow> parse_error + nat list" where
  "parse_tokens rt [] = Inr []"
| "parse_tokens rt (x # xs) =
     (case parse_single_cp_input rt x of
        Inl e \<Rightarrow> Inl e
      | Inr c \<Rightarrow> (case parse_tokens rt xs of Inl e \<Rightarrow> Inl e | Inr cs \<Rightarrow> Inr (c # cs)))"

definition parse_codepoint_input :: "runtime \<Rightarrow> ustring \<Rightarrow> parse_error + nat list" where
  "parse_codepoint_input rt s = parse_tokens rt (split rt s)"

text \<open>
  \<^verbatim>\<open>parse_label_input\<close> returns a list of code points when \<^verbatim>\<open>as_cp\<close> is true and
  a string otherwise; both are lists of code points here. The decoder is the caller's.
\<close>

definition parse_label_input ::
  "runtime \<Rightarrow> ustring \<Rightarrow> (ustring \<Rightarrow> parse_error + ustring) \<Rightarrow> bool \<Rightarrow> parse_error + nat list"
where
  "parse_label_input rt s idna_decoder as_cp =
     (if startswith (lower rt s) (u ''xn--'') then
        (if as_cp then
           (case idna_decoder (lower rt s) of Inl e \<Rightarrow> Inl e | Inr d \<Rightarrow> Inr (map py_ord d))
         else idna_decoder (lower rt s))
      else if 32 \<in> set s \<or> contains (u ''U+'') (upper rt s) then
        (case parse_codepoint_input rt s of
           Inl e \<Rightarrow> if 32 \<in> set s then Inl (SpacesNotPermitted s) else Inl e
         | Inr label_cp \<Rightarrow>
             if as_cp then Inr label_cp else Inr (concat (map unichr label_cp)))
      else
        (if as_cp then Inr (map py_ord s) else Inr s))"

text \<open>The digits of \<^verbatim>\<open>'%x' % n\<close>: the hexadecimal numeral of \<open>n\<close>, in lower case.\<close>

definition hex_char :: "nat \<Rightarrow> uchar" where
  "hex_char d = (if d < 10 then 48 + d else 87 + d)"

fun hex_digits :: "nat \<Rightarrow> ustring" where
  "hex_digits n =
     (if n < 16 then [hex_char n] else hex_digits (n div 16) @ [hex_char (n mod 16)])"

declare hex_digits.simps [simp del]

section \<open>Reading a label file\<close>

text \<open>The Unicode database gives the IDNA decoder; it is a collaborator.\<close>

record unidb =
  idna_decode_label :: "ustring \<Rightarrow> parse_error + ustring"

text \<open>
  One turn of the loop of \<^verbatim>\<open>read_labels\<close> on a stripped line: the line is
  skipped, or a string is yielded, or the exception of the parser leaves the generator.
\<close>

datatype step = Skip | Yield ustring | Raise parse_error

definition read_label :: "runtime \<Rightarrow> unidb \<Rightarrow> bool \<Rightarrow> bool \<Rightarrow> ustring \<Rightarrow> step" where
  "read_label rt db do_raise keep_commented label0 =
     (if 35 \<in> set label0 \<and> find_char 35 label0 = 0 then
        (if keep_commented then Yield label0 else Skip)
      else
        let label = (if 35 \<in> set label0
                     then strip rt (take (find_char 35 label0) label0) else label0)
        in if length label = 0 then Skip
           else case parse_label_input rt label (idna_decode_label db) False of
                  Inl ex \<Rightarrow> if do_raise then Raise ex
                            else Yield (label @ u '': '' @ unicode_of rt ex)
                | Inr l \<Rightarrow> Yield l)"

text \<open>
  The generator as a value: the strings it yields, in order, and the exception that
  ends it, if one does. Nothing after a raising line is read.
\<close>

fun read_stripped ::
  "runtime \<Rightarrow> unidb \<Rightarrow> bool \<Rightarrow> bool \<Rightarrow> ustring list \<Rightarrow> ustring list \<times> parse_error option"
where
  "read_stripped rt db do_raise keep_commented [] = ([], None)"
| "read_stripped rt db do_raise keep_commented (l # ls) =
     (case read_label rt db do_raise keep_commented l of
        Raise ex \<Rightarrow> ([], Some ex)
      | Skip \<Rightarrow> read_stripped rt db do_raise keep_commented ls
      | Yield y \<Rightarrow>
          (y # fst (read_stripped rt db do_raise keep_commented ls),
           snd (read_stripped rt db do_raise keep_commented ls)))"

definition read_labels ::
  "runtime \<Rightarrow> ustring list \<Rightarrow> unidb \<Rightarrow> bool \<Rightarrow> bool \<Rightarrow> ustring list \<times> parse_error option"
where
  "read_labels rt input db do_raise keep_commented =
     read_stripped rt db do_raise keep_commented (map (strip rt) input)"

section \<open>Validating the labels of a set\<close>

text \<open>
  A ruleset is a collaborator: its Unicode database and its eligibility test, of which
  \<^verbatim>\<open>read_set_labels\<close> reads the first component (eligible) and the last (the log).
\<close>

record lgr =
  unicode_database :: unidb
  test_label_eligible :: "nat list \<Rightarrow> bool \<times> ustring"

datatype error =
    ParseError parse_error
  | LGRInvalidLabelException ustring ustring
  | LGRLabelCollisionException

text \<open>
  The effects of \<^verbatim>\<open>read_set_labels\<close>: the messages given to \<^verbatim>\<open>logger.error\<close>
  and the calls of the collision checker, each with the set it was given, in order.
\<close>

record effects =
  logged :: "ustring list"
  collision_checks :: "ustring set list"

definition not_valid_message :: "runtime \<Rightarrow> ustring \<Rightarrow> ustring \<Rightarrow> ustring" where
  "not_valid_message rt label logs =
     u ''Label '' @ label @ u '' from LGR set labels is not valid: '' @ last_line (strip rt logs)"

text \<open>The body of the \<^verbatim>\<open>for\<close> loop, over the strings the generator yields.\<close>

fun add_labels ::
  "runtime \<Rightarrow> lgr \<Rightarrow> bool \<Rightarrow> bool \<Rightarrow> ustring list \<Rightarrow> ustring set \<Rightarrow> effects
     \<Rightarrow> effects \<times> (error + ustring set)"
where
  "add_labels rt merged_lgr validate_labels do_raise [] set_labels eff = (eff, Inr set_labels)"
| "add_labels rt merged_lgr validate_labels do_raise (label # rest) set_labels eff =
     (if validate_labels \<and> \<not> fst (test_label_eligible merged_lgr (map py_ord label)) then
        (let logs = snd (test_label_eligible merged_lgr (map py_ord label));
             eff' = eff\<lparr>logged := logged eff @ [not_valid_message rt label logs]\<rparr>
         in if do_raise
            then (eff', Inl (LGRInvalidLabelException label (last_line (strip rt logs))))
            else add_labels rt merged_lgr validate_labels do_raise rest set_labels eff')
      else add_labels rt merged_lgr validate_labels do_raise rest (insert label set_labels) eff)"

definition read_set_labels ::
  "runtime \<Rightarrow> (lgr \<Rightarrow> ustring set \<Rightarrow> bool) \<Rightarrow> lgr \<Rightarrow> ustring list \<Rightarrow> bool \<Rightarrow> bool
     \<Rightarrow> effects \<times> (error + ustring set)"
where
  "read_set_labels rt is_collision merged_lgr labels validate_labels do_raise =
     (let gen = read_labels rt labels (unicode_database merged_lgr) do_raise False in
      case add_labels rt merged_lgr validate_labels do_raise (fst gen) {}
             \<lparr>logged = [], collision_checks = []\<rparr> of
        (eff, Inl e) \<Rightarrow> (eff, Inl e)
      | (eff, Inr set_labels) \<Rightarrow>
          (case snd gen of
             Some ex \<Rightarrow> (eff, Inl (ParseError ex))
           | None \<Rightarrow>
               if validate_labels then
                 (let eff1 = eff\<lparr>collision_checks := collision_checks eff @ [set_labels]\<rparr> in
                  if is_collision merged_lgr set_labels then
                    (let eff2 = eff1\<lparr>logged := logged eff1
                                        @ [u ''Input label file contains collision(s)'']\<rparr>
                     in if do_raise then (eff2, Inl LGRLabelCollisionException)
                        else (eff2, Inr set_labels))
                  else (eff1, Inr set_labels))
               else (eff, Inr set_labels)))"

section \<open>Merging rulesets\<close>

text \<open>
  The XML parser and the merge algorithm are collaborators. A parser is made for each
  source and is given the Unicode database when there is one; \<^verbatim>\<open>validate_document\<close>
  returns \<^verbatim>\<open>None\<close> or its errors, \<^verbatim>\<open>parse_document\<close> a ruleset or \<^verbatim>\<open>None\<close>.
\<close>

record ('src, 'rng) collaborators =
  validate_document :: "unidb option \<Rightarrow> 'src \<Rightarrow> 'rng \<Rightarrow> ustring option"
  parse_document :: "unidb option \<Rightarrow> 'src \<Rightarrow> lgr option"
  merge_lgr_set :: "lgr list \<Rightarrow> ustring \<Rightarrow> lgr"

datatype 'src merge_log =
    RngErrors 'src ustring
  | ParsingError 'src
  | CheckCompliance

fun parse_lgrs ::
  "('src, 'rng) collaborators \<Rightarrow> 'rng option \<Rightarrow> unidb option \<Rightarrow> 'src list \<Rightarrow> lgr list
     \<Rightarrow> 'src merge_log list \<Rightarrow> 'src merge_log list \<times> lgr list option"
where
  "parse_lgrs cs rng db [] lgr_set log = (log, Some lgr_set)"
| "parse_lgrs cs rng db (lgr_file # rest) lgr_set log =
     (let log1 = (case rng of
                    None \<Rightarrow> log
                  | Some r \<Rightarrow> (case validate_document cs db lgr_file r of
                                None \<Rightarrow> log
                              | Some validation_result \<Rightarrow>
                                  log @ [RngErrors lgr_file validation_result]))
      in case parse_document cs db lgr_file of
           None \<Rightarrow> (log1 @ [ParsingError lgr_file, CheckCompliance], None)
         | Some l \<Rightarrow> parse_lgrs cs rng db rest (lgr_set @ [l]) log1)"

text \<open>\<^verbatim>\<open>merge_lgrs\<close> returns \<^verbatim>\<open>None\<close> or the pair of the merged ruleset and the
  rulesets of the set; a name that is \<^verbatim>\<open>None\<close> or empty is replaced.\<close>

definition merge_lgrs ::
  "('src, 'rng) collaborators \<Rightarrow> 'src list \<Rightarrow> ustring option \<Rightarrow> 'rng option \<Rightarrow> unidb option
     \<Rightarrow> 'src merge_log list \<times> (lgr \<times> lgr list) option"
where
  "merge_lgrs cs input_lgrs name rng db =
     (case parse_lgrs cs rng db input_lgrs [] [] of
        (log, None) \<Rightarrow> (log, None)
      | (log, Some lgr_set) \<Rightarrow>
          (let name' = (if name = None \<or> name = Some [] then u ''merged-lgr-set''
                        else the name);
               merged_lgr = merge_lgr_set cs lgr_set name';
               merged_lgr' = (case db of
                                None \<Rightarrow> merged_lgr
                              | Some d \<Rightarrow> merged_lgr\<lparr>unicode_database := d\<rparr>)
           in (log, Some (merged_lgr', lgr_set))))"

section \<open>Sample collaborators\<close>

text \<open>
  Concrete collaborators for the examples: an interpreter whose tables hold nothing
  beyond ASCII, a decoder that rejects every label, a ruleset whose repertoire is the
  letters a to z and whose log has two lines, a collision checker for which the labels
  abc and abd collide, and a document parser that fails on one file name.
\<close>

definition plain_runtime :: runtime where
  "plain_runtime =
     \<lparr>is_whitespace = (\<lambda>c. False), to_upper = (\<lambda>c. c), to_lower = (\<lambda>c. c),
      to_decimal = (\<lambda>c. None), repr_text = (\<lambda>s. [39] @ s @ [39]),
      encode_error_text = (\<lambda>s. u ''invalid decimal Unicode string'')\<rparr>"

definition sample_unidb :: unidb where
  "sample_unidb = \<lparr>idna_decode_label = (\<lambda>s. Inl (DecoderError (u ''decoding failed'')))\<rparr>"

definition sample_lgr :: lgr where
  "sample_lgr =
     \<lparr>unicode_database = sample_unidb,
      test_label_eligible = (\<lambda>cp. if list_all (\<lambda>c. 97 \<le> c \<and> c \<le> 122) cp then (True, [])
         else (False, u ''checking'' @ [10] @ u ''not in repertoire'' @ [10]))\<rparr>"

definition sample_is_collision :: "lgr \<Rightarrow> ustring set \<Rightarrow> bool" where
  "sample_is_collision l S = (u ''abc'' \<in> S \<and> u ''abd'' \<in> S)"

definition sample_collaborators :: "(ustring, unit) collaborators" where
  "sample_collaborators =
     \<lparr>validate_document = (\<lambda>db src rng. None),
      parse_document = (\<lambda>db src. if src = u ''bad.xml'' then None else Some sample_lgr),
      merge_lgr_set = (\<lambda>lgrs name. sample_lgr)\<rparr>"

section \<open>Evaluation and auxiliary facts\<close>

lemmas eval_simps = u_def py_ord_def unichr_def is_space_def upper_char_def lower_char_def upper_def lower_def
  strip_def split_def startswith_def find_char_def last_line_def decimal_of_def encode_decimal_char_def
  hex_digit_def is_hex_def py_int16_def parse_single_cp_input_def parse_codepoint_input_def
  parse_label_input_def Let_def read_label_def read_labels_def read_set_labels_def
  not_valid_message_def unicode_of_def plain_runtime_def sample_unidb_def sample_lgr_def
  sample_is_collision_def

lemma add_labels_result:
  "snd (add_labels rt l v r ys S eff) = Inr S' \<Longrightarrow>
     S' = S \<union> {y \<in> set ys. v \<longrightarrow> fst (test_label_eligible l (map py_ord y))}"
proof (induction ys arbitrary: S eff)
  case Nil
  then show ?case by simp
next
  case (Cons y ys)
  show ?case
  proof (cases "v \<and> \<not> fst (test_label_eligible l (map py_ord y))")
    case True
    with Cons.prems have nr: "\<not> r" by (auto simp: Let_def)
    with True Cons.prems have "snd (add_labels rt l v r ys S
        (eff\<lparr>logged := logged eff @ [not_valid_message rt y (snd (test_label_eligible l (map py_ord y)))]\<rparr>)) = Inr S'"
      by (simp add: Let_def)
    from Cons.IH[OF this] True show ?thesis by auto
  next
    case False
    with Cons.prems have "snd (add_labels rt l v r ys (insert y S) eff) = Inr S'"
      by auto
    from Cons.IH[OF this] False show ?thesis by auto
  qed
qed

lemma add_labels_lenient:
  "add_labels rt l v False ys S eff =
     (eff\<lparr>logged := logged eff @
        map (\<lambda>y. not_valid_message rt y (snd (test_label_eligible l (map py_ord y))))
          (filter (\<lambda>y. v \<and> \<not> fst (test_label_eligible l (map py_ord y))) ys)\<rparr>,
      Inr (S \<union> {y \<in> set ys. v \<longrightarrow> fst (test_label_eligible l (map py_ord y))}))"
proof (induction ys arbitrary: S eff)
  case Nil
  then show ?case by simp
next
  case (Cons y ys)
  show ?case
  proof (cases "v \<and> \<not> fst (test_label_eligible l (map py_ord y))")
    case True
    then show ?thesis
      using Cons.IH[of S "eff\<lparr>logged := logged eff @
        [not_valid_message rt y (snd (test_label_eligible l (map py_ord y)))]\<rparr>"]
      by (auto simp: Let_def)
  next
    case False
    then have "add_labels rt l v False (y # ys) S eff = add_labels rt l v False ys (insert y S) eff"
      by auto
    with False show ?thesis by (auto simp add: Cons.IH)
  qed
qed

lemma add_labels_all_eligible:
  "\<forall>y\<in>set ys. v \<longrightarrow> fst (test_label_eligible l (map py_ord y)) \<Longrightarrow>
     add_labels rt l v r ys S eff = (eff, Inr (S \<union> set ys))"
  by (induction ys arbitrary: S) auto

lemma add_labels_first_ineligible:
  assumes "\<forall>y\<in>set pre. fst (test_label_eligible l (map py_ord y))"
    and "\<not> fst (test_label_eligible l (map py_ord y))"
  shows "add_labels rt l True True (pre @ y # post) S eff =
     (eff\<lparr>logged := logged eff @ [not_valid_message rt y (snd (test_label_eligible l (map py_ord y)))]\<rparr>,
      Inl (LGRInvalidLabelException y (last_line (strip rt (snd (test_label_eligible l (map py_ord y)))))))"
  using assms by (induction pre arbitrary: S) (auto simp: Let_def)

lemma add_labels_checks:
  "collision_checks (fst (add_labels rt l v r ys S eff)) = collision_checks eff"
  by (induction ys arbitrary: S eff) (auto simp: Let_def)

lemma read_label_lenient: "read_label rt db False k l \<noteq> Raise ex"
  by (auto simp: read_label_def Let_def split: sum.splits)

lemma read_stripped_lenient_snd:
  "snd (read_stripped rt db False k ls) = None"
  by (induction ls) (auto simp: read_label_lenient split: step.splits)

lemma read_stripped_lenient_append:
  "fst (read_stripped rt db False k (xs @ ys)) =
     fst (read_stripped rt db False k xs) @ fst (read_stripped rt db False k ys)"
  by (induction xs) (auto split: step.splits simp: read_stripped_lenient_snd read_label_lenient)

lemma read_set_labels_lenient:
  "read_set_labels rt is_collision merged_lgr labels True False = (eff, res) \<Longrightarrow>
   ys = fst (read_labels rt labels (unicode_database merged_lgr) False False) \<Longrightarrow>
   res = Inr {y \<in> set ys. fst (test_label_eligible merged_lgr (map py_ord y))} \<and>
   (\<exists>tl. logged eff =
      map (\<lambda>y. not_valid_message rt y (snd (test_label_eligible merged_lgr (map py_ord y))))
        (filter (\<lambda>y. \<not> fst (test_label_eligible merged_lgr (map py_ord y))) ys) @ tl)"
  by (auto simp: read_set_labels_def Let_def add_labels_lenient read_labels_def
        read_stripped_lenient_snd split: if_splits)

lemma parse_lgrs_fails:
  "\<exists>f\<in>set input_lgrs. parse_document cs db f = None \<Longrightarrow>
     snd (parse_lgrs cs rng db input_lgrs lgr_set log) = None"
  by (induction input_lgrs arbitrary: lgr_set log) (auto simp: Let_def split: option.splits)

lemma map_py_ord: "map py_ord s = s"
  by (induction s) (simp_all add: py_ord_def)

lemma literal_path:
  "\<not> startswith (lower rt s) (u ''xn--'') \<Longrightarrow> 32 \<notin> set s \<Longrightarrow>
   \<not> contains (u ''U+'') (upper rt s) \<Longrightarrow>
   parse_label_input rt s idna_decoder as_cp = Inr s"
  by (simp add: parse_label_input_def map_py_ord)

lemma split_from_separator:
  "is_space rt w \<Longrightarrow>
     split_from rt cur (x @ w # y) = split_from rt cur x @ split_from rt [] y"
  by (induction x arbitrary: cur) auto

lemma strip_unchanged:
  "s \<noteq> [] \<Longrightarrow> \<not> is_space rt (hd s) \<Longrightarrow> \<not> is_space rt (last s) \<Longrightarrow> strip rt s = s"
proof -
  assume a: "s \<noteq> []" "\<not> is_space rt (hd s)" "\<not> is_space rt (last s)"
  then have 1: "dropWhile (is_space rt) s = s" by (cases s) auto
  from a have "rev s \<noteq> []" "\<not> is_space rt (hd (rev s))" by (simp_all add: hd_rev)
  then have 2: "dropWhile (is_space rt) (rev s) = rev s" by (cases "rev s") auto
  show ?thesis by (simp add: strip_def 1 2)
qed

lemma is_hex_ascii: "is_hex c \<Longrightarrow> c < 128 \<and> \<not> is_space rt c \<and> c \<noteq> 32 \<and> c \<noteq> 43 \<and> c \<noteq> 45 \<and> c \<noteq> 120 \<and> c \<noteq> 88"
  by (auto simp: is_hex_def hex_digit_def is_space_def split: if_splits)

lemma encode_decimal_char_hex: "is_hex c \<Longrightarrow> encode_decimal_char rt c = Some c"
  by (auto simp: is_hex_def hex_digit_def encode_decimal_char_def is_space_def decimal_of_def
      split: if_splits)

lemma encode_decimal_hex: "list_all is_hex ds \<Longrightarrow> encode_decimal rt ds = Some ds"
  by (induction ds) (simp_all add: encode_decimal_char_hex)

lemma skip_0x_hex: "list_all is_hex bs \<Longrightarrow> skip_0x bs = bs"
  by (induction bs rule: skip_0x.induct) (auto dest: is_hex_ascii)

lemma takeWhile_hex: "list_all is_hex bs \<Longrightarrow> takeWhile is_hex bs = bs \<and> dropWhile is_hex bs = []"
  by (induction bs) auto

lemma py_int16_hex:
  assumes "ds \<noteq> []" and "list_all is_hex ds"
  shows "py_int16 rt ds = Inr (int (hex_value 0 ds))"
proof -
  from assms obtain d ds' where ds: "ds = d # ds'" by (cases ds) auto
  with assms have d: "is_hex d" by simp
  have b1: "dropWhile (\<lambda>c. c = 32) ds = ds"
    using ds is_hex_ascii[OF d, of rt] by simp
  have sg: "take 1 ds \<noteq> [43] \<and> take 1 ds \<noteq> [45]"
    using ds is_hex_ascii[OF d, of rt] by simp
  show ?thesis
    using assms sg
    by (simp add: py_int16_def encode_decimal_hex b1 skip_0x_hex takeWhile_hex Let_def)
qed

lemma hex_value_snoc: "hex_value acc (bs @ [b]) = hex_value acc bs * 16 + the (hex_digit b)"
  by (induction bs arbitrary: acc) simp_all

lemma hex_digit_hex_char: "d < 16 \<Longrightarrow> hex_digit (hex_char d) = Some d"
  by (auto simp: hex_digit_def hex_char_def)

lemma hex_value_hex_digits: "hex_value 0 (hex_digits n) = n"
proof (induction n rule: hex_digits.induct)
  case (1 n)
  show ?case
  proof (cases "n < 16")
    case True
    then show ?thesis by (simp add: hex_digits.simps[of n] hex_digit_hex_char)
  next
    case False
    with 1 have "hex_value 0 (hex_digits (n div 16)) = n div 16" by simp
    with False show ?thesis
      by (simp add: hex_digits.simps[of n] hex_value_snoc hex_digit_hex_char)
  qed
qed

lemma hex_digits_nonempty: "hex_digits n \<noteq> []"
  by (simp add: hex_digits.simps[of n])

lemma lower_hex_char:
  "c < 128 \<Longrightarrow> lower_char rt c = hex_char d \<Longrightarrow> d < 16 \<Longrightarrow>
     is_hex c \<and> hex_digit c = Some d"
  by (auto simp: lower_char_def hex_char_def is_hex_def hex_digit_def split: if_splits)

lemma set_hex_digits: "x \<in> set (hex_digits n) \<Longrightarrow> \<exists>d<16. x = hex_char d"
proof (induction n rule: hex_digits.induct)
  case (1 n)
  show ?case
  proof (cases "n < 16")
    case True
    with 1(2) show ?thesis by (auto simp: hex_digits.simps[of n])
  next
    case False
    with 1 show ?thesis
      by (auto simp: hex_digits.simps[of n] intro: exI[of _ "n mod 16"])
  qed
qed

lemma caseless_hex:
  assumes "\<forall>c\<in>set ds. c < 128" and "\<forall>x\<in>set (lower rt ds). \<exists>d<16. x = hex_char d"
  shows "list_all is_hex ds \<and> hex_value acc ds = hex_value acc (lower rt ds)"
  using assms
proof (induction ds arbitrary: acc)
  case Nil
  then show ?case by (simp add: lower_def)
next
  case (Cons c ds)
  from Cons.prems obtain d where d: "d < 16" "lower_char rt c = hex_char d"
    by (auto simp: lower_def)
  from Cons.prems have c: "c < 128" by simp
  from lower_hex_char[OF c d(2) d(1)] have h: "is_hex c" "hex_digit c = Some d" by simp_all
  from Cons.prems have "\<forall>c\<in>set ds. c < 128" "\<forall>x\<in>set (lower rt ds). \<exists>d<16. x = hex_char d"
    by (auto simp: lower_def)
  from Cons.IH[OF this] h d show ?case
    by (simp add: lower_def hex_digit_hex_char)
qed

lemma parse_prefixed_hex:
  assumes ascii: "\<forall>c\<in>set ds. c < 128" and low: "lower rt ds = hex_digits n"
    and p: "p = u ''U+'' \<or> p = u ''u+''"
  shows "parse_single_cp_input rt (p @ ds) =
           (if n \<le> 0x10FFFF then Inr n else Inl CodePointOutOfRange)"
proof -
  have "\<forall>x\<in>set (lower rt ds). \<exists>d<16. x = hex_char d"
    using low set_hex_digits by simp
  from caseless_hex[OF ascii this, of 0] low
  have hex: "list_all is_hex ds" and val: "hex_value 0 ds = n"
    by (simp_all add: hex_value_hex_digits)
  have ne: "ds \<noteq> []" using low hex_digits_nonempty[of n] by (auto simp: lower_def)
  have lst: "\<not> is_space rt (last ds)"
    using hex ne is_hex_ascii[of "last ds" rt] by (simp add: list_all_iff)
  define s where "s = p @ ds"
  have st: "strip rt s = s"
    unfolding s_def using p ne lst by (intro strip_unchanged) (auto simp: u_def is_space_def)
  have up: "upper rt (take 2 s) = u ''U+''" and dr: "drop 2 s = ds"
    and len: "length s \<noteq> Suc 0"
    unfolding s_def using p by (auto simp: u_def upper_def upper_char_def)
  have "parse_single_cp_input rt s =
           (if n \<le> 0x10FFFF then Inr n else Inl CodePointOutOfRange)"
    by (simp add: parse_single_cp_input_def st up dr len py_int16_hex[OF ne hex] val Let_def)
  then show ?thesis by (simp add: s_def)
qed

section \<open>The validated label set\<close>

text \<open>
  C2 as stated fails: without \<^verbatim>\<open>do_raise\<close> a collision is logged and the set is
  returned all the same. Here both labels are eligible, the checker reports that they
  collide, and both are in the returned set.
\<close>

theorem collision_returned_when_not_raising:
  "snd (read_set_labels plain_runtime sample_is_collision sample_lgr
          [u ''abc'' @ [10], u ''abd'' @ [10]] True False) = Inr {u ''abc'', u ''abd''}
   \<and> sample_is_collision sample_lgr {u ''abc'', u ''abd''}"
  by (simp add: eval_simps insert_commute)

text \<open>
  C2, amended: when validation is requested, every label of the returned set is
  eligible under the merged ruleset, in both modes; with \<^verbatim>\<open>do_raise\<close> the collision
  checker moreover finds no collision in the returned set.
\<close>

theorem read_set_labels_validated:
  assumes "snd (read_set_labels rt is_collision merged_lgr labels True do_raise) = Inr set_labels"
  shows "(\<forall>label\<in>set_labels. fst (test_label_eligible merged_lgr (map py_ord label)))
       \<and> (do_raise \<longrightarrow> \<not> is_collision merged_lgr set_labels)"
proof -
  let ?gen = "read_labels rt labels (unicode_database merged_lgr) do_raise False"
  let ?e0 = "\<lparr>logged = [], collision_checks = []\<rparr>"
  obtain eff r where a: "add_labels rt merged_lgr True do_raise (fst ?gen) {} ?e0 = (eff, r)"
    by (cases "add_labels rt merged_lgr True do_raise (fst ?gen) {} ?e0")
  from assms a obtain S where r: "r = Inr S"
    by (cases r) (auto simp: read_set_labels_def Let_def)
  from assms a r have S: "S = set_labels"
    by (auto simp: read_set_labels_def Let_def split: option.splits if_splits)
  from a r have "snd (add_labels rt merged_lgr True do_raise (fst ?gen) {} ?e0) = Inr S" by simp
  from add_labels_result[OF this] S have el: "\<forall>label\<in>set_labels. fst (test_label_eligible merged_lgr (map py_ord label))"
    by auto
  from assms a r S have "do_raise \<longrightarrow> \<not> is_collision merged_lgr set_labels"
    by (auto simp: read_set_labels_def Let_def split: option.splits if_splits)
  with el show ?thesis by simp
qed

theorem read_set_labels_validated_witness:
  "snd (read_set_labels plain_runtime sample_is_collision sample_lgr
          [u ''abc'' @ [10], u ''xyz'' @ [10], u ''a1'' @ [10]] True False) = Inr {u ''abc'', u ''xyz''}
   \<and> fst (test_label_eligible sample_lgr (map py_ord (u ''abc'')))
   \<and> fst (test_label_eligible sample_lgr (map py_ord (u ''xyz'')))"
proof -
  have h: "snd (read_set_labels plain_runtime sample_is_collision sample_lgr
          [u ''abc'' @ [10], u ''xyz'' @ [10], u ''a1'' @ [10]] True False) = Inr {u ''abc'', u ''xyz''}"
    by (simp add: eval_simps insert_commute)
  from read_set_labels_validated[OF h] h show ?thesis by simp
qed

section \<open>Ineligible labels\<close>

text \<open>
  C3: with validation, a label that the generator yields and that is not eligible is
  not in the returned set, and the message logged for it ends with the last line of
  the stripped log of the eligibility test. With \<^verbatim>\<open>do_raise\<close>, the first such label
  ends the operation with an \<^verbatim>\<open>LGRInvalidLabelException\<close> that carries the label and
  that line, and its message is the only one logged.
\<close>

theorem ineligible_labels_excluded_and_logged:
  assumes run: "read_set_labels rt is_collision merged_lgr labels True do_raise = (eff, res)"
    and ys: "ys = fst (read_labels rt labels (unicode_database merged_lgr) do_raise False)"
  shows "(\<not> do_raise \<longrightarrow>
            (\<exists>set_labels. res = Inr set_labels \<and>
               (\<forall>label\<in>set ys. \<not> fst (test_label_eligible merged_lgr (map py_ord label)) \<longrightarrow>
                  label \<notin> set_labels \<and>
                  u ''Label '' @ label @ u '' from LGR set labels is not valid: '' @
                    last_line (strip rt (snd (test_label_eligible merged_lgr (map py_ord label))))
                  \<in> set (logged eff))))
       \<and> (do_raise \<longrightarrow>
            (\<forall>pre label post.
               ys = pre @ label # post \<and>
               (\<forall>x\<in>set pre. fst (test_label_eligible merged_lgr (map py_ord x))) \<and>
               \<not> fst (test_label_eligible merged_lgr (map py_ord label)) \<longrightarrow>
               res = Inl (LGRInvalidLabelException label
                      (last_line (strip rt (snd (test_label_eligible merged_lgr (map py_ord label))))))
               \<and> logged eff =
                   [u ''Label '' @ label @ u '' from LGR set labels is not valid: '' @
                    last_line (strip rt (snd (test_label_eligible merged_lgr (map py_ord label))))]))"
proof (cases do_raise)
  case False
  with run ys have r: "read_set_labels rt is_collision merged_lgr labels True False = (eff, res)"
    and y: "ys = fst (read_labels rt labels (unicode_database merged_lgr) False False)"
    by simp_all
  from read_set_labels_lenient[OF r y] False show ?thesis
    by (auto simp: not_valid_message_def)
next
  case True
  have "res = Inl (LGRInvalidLabelException label
             (last_line (strip rt (snd (test_label_eligible merged_lgr (map py_ord label))))))
        \<and> logged eff = [not_valid_message rt label (snd (test_label_eligible merged_lgr (map py_ord label)))]"
    if split: "ys = pre @ label # post"
      and pre: "\<forall>x\<in>set pre. fst (test_label_eligible merged_lgr (map py_ord x))"
      and bad: "\<not> fst (test_label_eligible merged_lgr (map py_ord label))"
    for pre label post
  proof -
    have "fst (read_labels rt labels (unicode_database merged_lgr) True False) = pre @ label # post"
      using ys split True by simp
    with run True add_labels_first_ineligible[OF pre bad, of rt post "{}" "\<lparr>logged = [], collision_checks = []\<rparr>"]
    show ?thesis
      by (auto simp: read_set_labels_def Let_def)
  qed
  with True show ?thesis by (simp add: not_valid_message_def)
qed

theorem ineligible_labels_excluded_and_logged_witness:
  "snd (read_set_labels plain_runtime sample_is_collision sample_lgr
          [u ''abc'' @ [10], u ''a1'' @ [10]] True True)
     = Inl (LGRInvalidLabelException (u ''a1'') (u ''not in repertoire''))
   \<and> snd (read_set_labels plain_runtime sample_is_collision sample_lgr
          [u ''abc'' @ [10], u ''a1'' @ [10]] True False) = Inr {u ''abc''}
   \<and> u ''Label a1 from LGR set labels is not valid: not in repertoire''
       \<in> set (logged (fst (read_set_labels plain_runtime sample_is_collision sample_lgr
          [u ''abc'' @ [10], u ''a1'' @ [10]] True False)))"
proof -
  let ?in = "[u ''abc'' @ [10], u ''a1'' @ [10]]"
  let ?strict = "read_set_labels plain_runtime sample_is_collision sample_lgr ?in True True"
  let ?lenient = "read_set_labels plain_runtime sample_is_collision sample_lgr ?in True False"
  have ys1: "[u ''abc'', u ''a1''] = fst (read_labels plain_runtime ?in (unicode_database sample_lgr) True False)"
    by (simp add: eval_simps)
  have ys2: "[u ''abc'', u ''a1''] = fst (read_labels plain_runtime ?in (unicode_database sample_lgr) False False)"
    by (simp add: eval_simps)
  have e1: "fst (test_label_eligible sample_lgr (map py_ord (u ''abc'')))"
    and e2: "\<not> fst (test_label_eligible sample_lgr (map py_ord (u ''a1'')))"
    and lg: "last_line (strip plain_runtime (snd (test_label_eligible sample_lgr (map py_ord (u ''a1'')))))
             = u ''not in repertoire''"
    by (simp_all add: eval_simps)
  have r1: "?strict = (fst ?strict, snd ?strict)" and r2: "?lenient = (fst ?lenient, snd ?lenient)"
    by simp_all
  have "[u ''abc'', u ''a1''] = [u ''abc''] @ u ''a1'' # []" by simp
  with ineligible_labels_excluded_and_logged[OF r1 ys1] e1 e2 lg
  have A: "snd ?strict = Inl (LGRInvalidLabelException (u ''a1'') (u ''not in repertoire''))"
    by (metis empty_iff empty_set set_ConsD)
  from ineligible_labels_excluded_and_logged[OF r2 ys2] e2 lg obtain S where
    "snd ?lenient = Inr S" "u ''a1'' \<notin> S"
    "u ''Label '' @ u ''a1'' @ u '' from LGR set labels is not valid: '' @ u ''not in repertoire''
       \<in> set (logged (fst ?lenient))"
    by (metis list.set_intros(1) list.set_intros(2))
  moreover have "snd ?lenient = Inr {u ''abc''}" by (simp add: eval_simps)
  moreover have "u ''Label '' @ u ''a1'' @ u '' from LGR set labels is not valid: '' @ u ''not in repertoire''
     = u ''Label a1 from LGR set labels is not valid: not in repertoire''" by (simp add: u_def)
  ultimately show ?thesis using A by simp
qed

section \<open>The collision check\<close>

text \<open>
  C4: with validation, the collision checker is called once, after the loop over the
  labels, on the set of the eligible labels that were read; a collision is logged, and
  raises \<^verbatim>\<open>LGRLabelCollisionException\<close> with \<^verbatim>\<open>do_raise\<close> only, the set being
  returned otherwise. It is never called inside the loop: when a label ends the
  operation first (\<^verbatim>\<open>do_raise\<close> with a label that does not parse or is not eligible),
  the operation is over before the check.
\<close>

theorem collision_check_once_at_end:
  assumes run: "read_set_labels rt is_collision merged_lgr labels True do_raise = (eff, res)"
    and gen: "gen = read_labels rt labels (unicode_database merged_lgr) do_raise False"
    and S: "set_labels = {y \<in> set (fst gen). fst (test_label_eligible merged_lgr (map py_ord y))}"
  shows "if do_raise \<and> (snd gen \<noteq> None \<or>
                         (\<exists>y\<in>set (fst gen). \<not> fst (test_label_eligible merged_lgr (map py_ord y))))
         then collision_checks eff = [] \<and> (\<exists>e. res = Inl e \<and> e \<noteq> LGRLabelCollisionException)
         else collision_checks eff = [set_labels] \<and>
              (if is_collision merged_lgr set_labels
               then last (logged eff) = u ''Input label file contains collision(s)'' \<and>
                    res = (if do_raise then Inl LGRLabelCollisionException else Inr set_labels)
               else res = Inr set_labels \<and>
                    logged eff =
                      map (\<lambda>y. not_valid_message rt y (snd (test_label_eligible merged_lgr (map py_ord y))))
                        (filter (\<lambda>y. \<not> fst (test_label_eligible merged_lgr (map py_ord y))) (fst gen)))"
proof (cases do_raise)
  case False
  have g: "snd gen = None"
    using gen False by (simp add: read_labels_def read_stripped_lenient_snd)
  from run False gen g S show ?thesis
    by (auto simp: read_set_labels_def Let_def add_labels_lenient split: if_splits)
next
  case True
  let ?e0 = "\<lparr>logged = [], collision_checks = []\<rparr>"
  show ?thesis
  proof (cases "\<exists>y\<in>set (fst gen). \<not> fst (test_label_eligible merged_lgr (map py_ord y))")
    case bad: True
    then obtain pre y post where sp: "fst gen = pre @ y # post"
      and pre: "\<forall>x\<in>set pre. fst (test_label_eligible merged_lgr (map py_ord x))"
      and y: "\<not> fst (test_label_eligible merged_lgr (map py_ord y))"
      using split_list_first_prop[of "fst gen" "\<lambda>y. \<not> fst (test_label_eligible merged_lgr (map py_ord y))"]
      by auto
    from run True gen sp add_labels_first_ineligible[OF pre y, of rt post "{}" ?e0] bad
    show ?thesis by (auto simp: read_set_labels_def Let_def)
  next
    case ok: False
    then have all: "\<forall>y\<in>set (fst gen). True \<longrightarrow> fst (test_label_eligible merged_lgr (map py_ord y))"
      by simp
    have f: "filter (\<lambda>y. \<not> fst (test_label_eligible merged_lgr (map py_ord y))) (fst gen) = []"
      using ok by (simp add: filter_empty_conv)
    have S': "set_labels = set (fst gen)" using S ok by auto
    from run True gen ok S' f add_labels_all_eligible[OF all, of rt True "{}" ?e0]
    show ?thesis
      by (auto simp: read_set_labels_def Let_def split: option.splits if_splits)
  qed
qed

theorem collision_check_once_at_end_witness:
  "collision_checks (fst (read_set_labels plain_runtime sample_is_collision sample_lgr
       [u ''abc'' @ [10], u ''a1'' @ [10], u ''abd'' @ [10]] True False)) = [{u ''abc'', u ''abd''}]
   \<and> snd (read_set_labels plain_runtime sample_is_collision sample_lgr
       [u ''abc'' @ [10], u ''a1'' @ [10], u ''abd'' @ [10]] True False) = Inr {u ''abc'', u ''abd''}
   \<and> last (logged (fst (read_set_labels plain_runtime sample_is_collision sample_lgr
       [u ''abc'' @ [10], u ''a1'' @ [10], u ''abd'' @ [10]] True False)))
       = u ''Input label file contains collision(s)''
   \<and> collision_checks (fst (read_set_labels plain_runtime sample_is_collision sample_lgr
       [u ''abc'' @ [10], u ''abd'' @ [10]] True True)) = [{u ''abc'', u ''abd''}]
   \<and> snd (read_set_labels plain_runtime sample_is_collision sample_lgr
       [u ''abc'' @ [10], u ''abd'' @ [10]] True True) = Inl LGRLabelCollisionException"
proof -
  let ?in1 = "[u ''abc'' @ [10], u ''a1'' @ [10], u ''abd'' @ [10]]"
  let ?in2 = "[u ''abc'' @ [10], u ''abd'' @ [10]]"
  let ?lenient = "read_set_labels plain_runtime sample_is_collision sample_lgr ?in1 True False"
  let ?strict = "read_set_labels plain_runtime sample_is_collision sample_lgr ?in2 True True"
  have g1: "read_labels plain_runtime ?in1 (unicode_database sample_lgr) False False
            = ([u ''abc'', u ''a1'', u ''abd''], None)"
    by (simp add: eval_simps)
  have g2: "read_labels plain_runtime ?in2 (unicode_database sample_lgr) True False
            = ([u ''abc'', u ''abd''], None)"
    by (simp add: eval_simps)
  have s1: "{y \<in> set [u ''abc'', u ''a1'', u ''abd'']. fst (test_label_eligible sample_lgr (map py_ord y))}
            = {u ''abc'', u ''abd''}"
    by (auto simp: eval_simps)
  have s2: "{y \<in> set [u ''abc'', u ''abd'']. fst (test_label_eligible sample_lgr (map py_ord y))}
            = {u ''abc'', u ''abd''}"
    by (auto simp: eval_simps)
  have c: "sample_is_collision sample_lgr {u ''abc'', u ''abd''}"
    by (simp add: sample_is_collision_def)
  have all: "\<forall>y\<in>set [u ''abc'', u ''abd'']. fst (test_label_eligible sample_lgr (map py_ord y))"
    by (simp add: eval_simps)
  have r1: "?lenient = (fst ?lenient, snd ?lenient)" and r2: "?strict = (fst ?strict, snd ?strict)"
    by simp_all
  from collision_check_once_at_end[OF r1 refl refl] have A: "collision_checks (fst ?lenient) = [{u ''abc'', u ''abd''}]
      \<and> last (logged (fst ?lenient)) = u ''Input label file contains collision(s)''
      \<and> snd ?lenient = Inr {u ''abc'', u ''abd''}"
    unfolding g1 fst_conv snd_conv s1 using c by simp
  from collision_check_once_at_end[OF r2 refl refl] have B: "collision_checks (fst ?strict) = [{u ''abc'', u ''abd''}]
      \<and> snd ?strict = Inl LGRLabelCollisionException"
    unfolding g2 fst_conv snd_conv s2 using c all by simp
  from A B show ?thesis by simp
qed

section \<open>Merging with a source that does not parse\<close>

text \<open>
  C5: when the parser returns no ruleset for one of the sources, \<^verbatim>\<open>merge_lgrs\<close>
  returns \<^verbatim>\<open>None\<close>, whatever the other sources are.
\<close>

theorem merge_lgrs_unparseable_source:
  "\<exists>lgr_file\<in>set input_lgrs. parse_document cs db lgr_file = None \<Longrightarrow>
     snd (merge_lgrs cs input_lgrs name rng db) = None"
proof -
  assume a: "\<exists>lgr_file\<in>set input_lgrs. parse_document cs db lgr_file = None"
  obtain log r where p: "parse_lgrs cs rng db input_lgrs [] [] = (log, r)"
    by (cases "parse_lgrs cs rng db input_lgrs [] []")
  with parse_lgrs_fails[OF a, of rng "[]" "[]"] have "r = None" by simp
  with p show ?thesis by (simp add: merge_lgrs_def)
qed

theorem merge_lgrs_unparseable_source_witness:
  "(\<exists>lgr_file\<in>set [u ''a.xml'', u ''bad.xml'', u ''c.xml''].
       parse_document sample_collaborators None lgr_file = None)
   \<and> snd (merge_lgrs sample_collaborators [u ''a.xml'', u ''bad.xml'', u ''c.xml''] None None None) = None"
proof -
  have h: "\<exists>lgr_file\<in>set [u ''a.xml'', u ''bad.xml'', u ''c.xml''].
       parse_document sample_collaborators None lgr_file = None"
    by (simp add: sample_collaborators_def)
  from merge_lgrs_unparseable_source[OF h] h show ?thesis by simp
qed

section \<open>Literal text\<close>

text \<open>
  C1: a string of more than one character with no space, no \<^verbatim>\<open>U+\<close> in its upper
  case and no \<^verbatim>\<open>xn--\<close> at the start of its lower case is returned character by
  character, one code point each. So \<^verbatim>\<open>0061\<close> gives the four code points 48, 48, 54,
  49 and not 97, while \<^verbatim>\<open>U+0061\<close> gives 97.
\<close>

theorem parse_label_input_literal_text:
  "(1 < length s \<and> 32 \<notin> set s \<and> \<not> contains (u ''U+'') (upper rt s)
      \<and> \<not> startswith (lower rt s) (u ''xn--'')
     \<longrightarrow> parse_label_input rt s idna_decoder True = Inr (map py_ord s))
   \<and> parse_label_input rt (u ''0061'') idna_decoder True = Inr [48, 48, 54, 49]
   \<and> parse_label_input rt (u ''0061'') idna_decoder True \<noteq> Inr [97]
   \<and> parse_label_input rt (u ''U+0061'') idna_decoder True = Inr [97]"
proof -
  have "parse_label_input rt (u ''0061'') idna_decoder True = Inr [48, 48, 54, 49]"
    by (simp add: eval_simps)
  moreover have "parse_label_input rt (u ''U+0061'') idna_decoder True = Inr [97]"
    by (simp add: eval_simps)
  ultimately show ?thesis
    by (simp add: literal_path map_py_ord)
qed

theorem parse_label_input_literal_text_witness:
  "1 < length (u ''0061'') \<and> 32 \<notin> set (u ''0061'')
   \<and> \<not> contains (u ''U+'') (upper plain_runtime (u ''0061''))
   \<and> \<not> startswith (lower plain_runtime (u ''0061'')) (u ''xn--'')
   \<and> parse_label_input plain_runtime (u ''0061'') (idna_decode_label sample_unidb) True
       = Inr (map py_ord (u ''0061''))"
proof -
  have h: "1 < length (u ''0061'') \<and> 32 \<notin> set (u ''0061'')
   \<and> \<not> contains (u ''U+'') (upper plain_runtime (u ''0061''))
   \<and> \<not> startswith (lower plain_runtime (u ''0061'')) (u ''xn--'')"
    by (simp add: eval_simps)
  with parse_label_input_literal_text[of "u ''0061''" plain_runtime "idna_decode_label sample_unidb"] show ?thesis
    by blast
qed

section \<open>One code point\<close>

text \<open>
  C6 as stated fails for a white space character: the input is stripped first, so a
  single space becomes the empty string, which \<^verbatim>\<open>int\<close> rejects.
\<close>

theorem parse_single_cp_input_space:
  "parse_single_cp_input plain_runtime [32] = Inl (InvalidLiteral [])
   \<and> parse_single_cp_input plain_runtime [32] \<noteq> Inr (py_ord 32)"
  by (simp add: eval_simps)

text \<open>
  C6, amended: for every single character \<open>c\<close> that is not white space,
  \<^verbatim>\<open>parse_single_cp_input\<close> returns \<^verbatim>\<open>ord(c)\<close>, digits included; for every
  \<open>n\<close> up to 0x10FFFF, \<^verbatim>\<open>U+\<close> or \<^verbatim>\<open>u+\<close> followed by the hexadecimal numeral of
  \<open>n\<close>, its letters in any case, gives \<open>n\<close>; and \<^verbatim>\<open>U+110000\<close> fails with the
  out-of-range error.
\<close>

theorem parse_single_cp_input_code_point:
  "(\<not> is_space rt c \<longrightarrow> parse_single_cp_input rt [c] = Inr (py_ord c))
   \<and> (n \<le> 0x10FFFF \<and> (\<forall>c\<in>set ds. c < 128) \<and> lower rt ds = hex_digits n
        \<and> (p = u ''U+'' \<or> p = u ''u+'')
      \<longrightarrow> parse_single_cp_input rt (p @ ds) = Inr n)
   \<and> parse_single_cp_input rt (u ''U+'' @ hex_digits 0x110000) = Inl CodePointOutOfRange
   \<and> parse_single_cp_input rt (u ''U+110000'') = Inl CodePointOutOfRange"
proof -
  have 1: "\<not> is_space rt c \<longrightarrow> parse_single_cp_input rt [c] = Inr (py_ord c)"
    by (simp add: parse_single_cp_input_def strip_def)
  have 2: "n \<le> 0x10FFFF \<and> (\<forall>c\<in>set ds. c < 128) \<and> lower rt ds = hex_digits n
        \<and> (p = u ''U+'' \<or> p = u ''u+'')
      \<longrightarrow> parse_single_cp_input rt (p @ ds) = Inr n"
    using parse_prefixed_hex[of ds rt n p] by auto
  have hd: "hex_digits 0x110000 = u ''110000''"
    by (simp add: hex_digits.simps hex_char_def u_def)
  have 3: "parse_single_cp_input rt (u ''U+110000'') = Inl CodePointOutOfRange"
    by (simp add: eval_simps)
  have 4: "parse_single_cp_input rt (u ''U+'' @ hex_digits 0x110000) = Inl CodePointOutOfRange"
    using 3 by (simp add: hd u_def)
  from 1 2 3 4 show ?thesis by blast
qed

theorem parse_single_cp_input_code_point_witness:
  "\<not> is_space plain_runtime 49 \<and> parse_single_cp_input plain_runtime [49] = Inr (py_ord 49)
   \<and> (0x10FFFF::nat) \<le> 0x10FFFF
   \<and> lower plain_runtime (u ''10FfFf'') = hex_digits 0x10FFFF
   \<and> parse_single_cp_input plain_runtime (u ''u+'' @ u ''10FfFf'') = Inr 0x10FFFF"
proof -
  have h1: "\<not> is_space plain_runtime 49" by (simp add: eval_simps)
  have h2: "(0x10FFFF::nat) \<le> 0x10FFFF \<and> (\<forall>c\<in>set (u ''10FfFf''). c < 128)
      \<and> lower plain_runtime (u ''10FfFf'') = hex_digits 0x10FFFF
      \<and> (u ''u+'' = u ''U+'' \<or> u ''u+'' = u ''u+'')"
    by (simp add: eval_simps hex_digits.simps hex_char_def)
  from parse_single_cp_input_code_point[of plain_runtime 49 "0x10FFFF" "u ''10FfFf''" "u ''u+''"] h1 h2
  show ?thesis by blast
qed

section \<open>Spaces that are not permitted\<close>

text \<open>
  C7 as stated fails for a string that starts with \<^verbatim>\<open>xn--\<close>: it goes to the IDNA
  decoder whether or not it holds a space. Here the string holds a space and is no
  code point sequence, and the error is the decoder's.
\<close>

theorem xn_label_with_space_goes_to_decoder:
  "32 \<in> set (u ''xn--a b'')
   \<and> parse_codepoint_input plain_runtime (u ''xn--a b'') = Inl (InvalidLiteral (u ''xn--a''))
   \<and> parse_label_input plain_runtime (u ''xn--a b'') (idna_decode_label sample_unidb) True
       = Inl (DecoderError (u ''decoding failed''))
   \<and> parse_label_input plain_runtime (u ''xn--a b'') (idna_decode_label sample_unidb) True
       \<noteq> Inl (SpacesNotPermitted (u ''xn--a b''))"
  by (simp add: eval_simps)

text \<open>
  C7, amended: for a string whose lower case does not start with \<^verbatim>\<open>xn--\<close> and that
  fails to parse as a code point sequence: when it holds a space,
  \<^verbatim>\<open>parse_label_input\<close> fails with the error whose message says that the label
  contains spaces that are not permitted; when it holds no space but a \<^verbatim>\<open>U+\<close>, the
  error of the code point parser is raised unchanged.
\<close>

theorem parse_label_input_whitespace_error:
  assumes "\<not> startswith (lower rt s) (u ''xn--'')"
    and "parse_codepoint_input rt s = Inl e"
  shows "(32 \<in> set s \<longrightarrow>
            parse_label_input rt s idna_decoder as_cp = Inl (SpacesNotPermitted s)
            \<and> unicode_of rt (SpacesNotPermitted s) =
                u ''Label '' @ [39] @ s @ [39] @ u '' contains spaces that are not PVALID for IDNA2008'')
       \<and> (32 \<notin> set s \<and> contains (u ''U+'') (upper rt s) \<longrightarrow>
            parse_label_input rt s idna_decoder as_cp = Inl e)"
  using assms by (simp add: parse_label_input_def unicode_of_def)

theorem parse_label_input_whitespace_error_witness:
  "\<not> startswith (lower plain_runtime (u ''a xy'')) (u ''xn--'')
   \<and> parse_codepoint_input plain_runtime (u ''a xy'') = Inl (InvalidLiteral (u ''xy''))
   \<and> 32 \<in> set (u ''a xy'')
   \<and> parse_label_input plain_runtime (u ''a xy'') (idna_decode_label sample_unidb) True
        = Inl (SpacesNotPermitted (u ''a xy''))
   \<and> \<not> startswith (lower plain_runtime (u ''U+110000'')) (u ''xn--'')
   \<and> parse_codepoint_input plain_runtime (u ''U+110000'') = Inl CodePointOutOfRange
   \<and> 32 \<notin> set (u ''U+110000'') \<and> contains (u ''U+'') (upper plain_runtime (u ''U+110000''))
   \<and> parse_label_input plain_runtime (u ''U+110000'') (idna_decode_label sample_unidb) True
        = Inl CodePointOutOfRange"
proof -
  have a1: "\<not> startswith (lower plain_runtime (u ''a xy'')) (u ''xn--'')"
    and a2: "parse_codepoint_input plain_runtime (u ''a xy'') = Inl (InvalidLiteral (u ''xy''))"
    and a3: "32 \<in> set (u ''a xy'')"
    by (simp_all add: eval_simps)
  have b1: "\<not> startswith (lower plain_runtime (u ''U+110000'')) (u ''xn--'')"
    and b2: "parse_codepoint_input plain_runtime (u ''U+110000'') = Inl CodePointOutOfRange"
    and b3: "32 \<notin> set (u ''U+110000'') \<and> contains (u ''U+'') (upper plain_runtime (u ''U+110000''))"
    by (simp_all add: eval_simps)
  from parse_label_input_whitespace_error[OF a1 a2, of "idna_decode_label sample_unidb" True] a3
  have A: "parse_label_input plain_runtime (u ''a xy'') (idna_decode_label sample_unidb) True
        = Inl (SpacesNotPermitted (u ''a xy''))" by blast
  from parse_label_input_whitespace_error[OF b1 b2, of "idna_decode_label sample_unidb" True] b3
  have B: "parse_label_input plain_runtime (u ''U+110000'') (idna_decode_label sample_unidb) True
        = Inl CodePointOutOfRange" by blast
  from a1 a2 a3 b1 b2 b3 A B show ?thesis by blast
qed

section \<open>Reading four lines\<close>

text \<open>
  C8: the lines \<^verbatim>\<open># comment\<close>, \<^verbatim>\<open>abc\<close>, \<^verbatim>\<open>U+0061 0062\<close> and a blank line, each
  with its line feed and without \<^verbatim>\<open>keep_commented\<close>, give two labels in this order:
  the three characters \<^verbatim>\<open>abc\<close> and the two characters of code points 97 and 98.
\<close>

theorem read_labels_end_to_end:
  "read_labels rt [u ''# comment'' @ [10], u ''abc'' @ [10], u ''U+0061 0062'' @ [10], [32, 32, 10]]
      db do_raise False = ([u ''abc'', [97, 98]], None)
   \<and> length (u ''abc'') = 3 \<and> length [97::nat, 98] = 2"
  by (simp add: eval_simps)

section \<open>White space other than the space\<close>

text \<open>
  C10: only U+0020 sends a string to the code point parser. A string that holds a
  white space character other than the space (a tab, say), no space, no \<^verbatim>\<open>U+\<close> and
  no \<^verbatim>\<open>xn--\<close> prefix is read literally, that character being one of its code points,
  although \<^verbatim>\<open>parse_codepoint_input\<close> cuts the same string at that character.
\<close>

theorem format_detection_tests_space_only:
  assumes "is_space rt w" and "w \<noteq> 32" and "w \<in> set s" and "32 \<notin> set s"
    and "\<not> contains (u ''U+'') (upper rt s)"
    and "\<not> startswith (lower rt s) (u ''xn--'')"
  shows "parse_label_input rt s idna_decoder True = Inr (map py_ord s)
       \<and> length (map py_ord s) = length s
       \<and> py_ord w \<in> set (map py_ord s)
       \<and> (\<forall>x y. s = x @ w # y \<longrightarrow>
             parse_codepoint_input rt s = parse_tokens rt (split rt x @ split rt y))
       \<and> parse_label_input rt (u ''0061'' @ [9] @ u ''0062'') idna_decoder True
             = Inr [48, 48, 54, 49, 9, 48, 48, 54, 50]
       \<and> parse_codepoint_input rt (u ''0061'' @ [9] @ u ''0062'') = Inr [97, 98]"
proof -
  have "parse_label_input rt s idna_decoder True = Inr (map py_ord s)"
    using assms by (simp add: literal_path map_py_ord)
  moreover have "py_ord w \<in> set (map py_ord s)"
    using assms(3) by (simp add: map_py_ord py_ord_def)
  moreover have "\<forall>x y. s = x @ w # y \<longrightarrow>
             parse_codepoint_input rt s = parse_tokens rt (split rt x @ split rt y)"
    using assms(1) by (simp add: parse_codepoint_input_def split_def split_from_separator)
  moreover have "parse_label_input rt (u ''0061'' @ [9] @ u ''0062'') idna_decoder True
             = Inr [48, 48, 54, 49, 9, 48, 48, 54, 50]"
    by (simp add: eval_simps)
  moreover have "parse_codepoint_input rt (u ''0061'' @ [9] @ u ''0062'') = Inr [97, 98]"
    by (simp add: eval_simps)
  ultimately show ?thesis by simp
qed

theorem format_detection_tests_space_only_witness:
  "is_space plain_runtime 9 \<and> 9 \<in> set (u ''0061'' @ [9] @ u ''0062'')
   \<and> 32 \<notin> set (u ''0061'' @ [9] @ u ''0062'')
   \<and> \<not> contains (u ''U+'') (upper plain_runtime (u ''0061'' @ [9] @ u ''0062''))
   \<and> \<not> startswith (lower plain_runtime (u ''0061'' @ [9] @ u ''0062'')) (u ''xn--'')
   \<and> parse_label_input plain_runtime (u ''0061'' @ [9] @ u ''0062'')
        (idna_decode_label sample_unidb) True = Inr (map py_ord (u ''0061'' @ [9] @ u ''0062''))
   \<and> parse_codepoint_input plain_runtime (u ''0061'' @ [9] @ u ''0062'')
        = parse_tokens plain_runtime (split plain_runtime (u ''0061'') @ split plain_runtime (u ''0062''))"
proof -
  let ?s = "u ''0061'' @ [9] @ u ''0062''"
  have h1: "is_space plain_runtime 9" and h2: "(9::nat) \<noteq> 32" and h3: "9 \<in> set ?s"
    and h4: "32 \<notin> set ?s"
    and h5: "\<not> contains (u ''U+'') (upper plain_runtime ?s)"
    and h6: "\<not> startswith (lower plain_runtime ?s) (u ''xn--'')"
    by (simp_all add: eval_simps)
  have "?s = u ''0061'' @ 9 # u ''0062''" by simp
  with format_detection_tests_space_only[OF h1 h2 h3 h4 h5 h6, of "idna_decode_label sample_unidb"] h1 h3 h4 h5 h6
  show ?thesis by blast
qed

section \<open>The placeholder of a line that does not parse\<close>

text \<open>
  C9: without \<^verbatim>\<open>do_raise\<close>, a line whose label does not parse makes
  \<^verbatim>\<open>read_labels\<close> yield the label, a colon, a space and the message of the
  exception, at the place of the label, and reading goes on. \<^verbatim>\<open>read_set_labels\<close>
  treats that string as any other: without validation it is in the returned set, with
  validation it is in the returned set exactly when the ruleset finds it eligible.
\<close>

theorem placeholder_is_a_candidate_label:
  assumes l0: "l0 = strip rt line"
    and nc: "\<not> (35 \<in> set l0 \<and> find_char 35 l0 = 0)"
    and lab: "label = (if 35 \<in> set l0 then strip rt (take (find_char 35 l0) l0) else l0)"
    and ne: "label \<noteq> []"
    and fail: "parse_label_input rt label (idna_decode_label (unicode_database merged_lgr)) False = Inl ex"
    and ph: "placeholder = label @ u '': '' @ unicode_of rt ex"
  shows "read_labels rt (before @ line # after) (unicode_database merged_lgr) False keep_commented
           = (fst (read_labels rt before (unicode_database merged_lgr) False keep_commented)
                @ placeholder
                # fst (read_labels rt after (unicode_database merged_lgr) False keep_commented),
              None)
       \<and> (\<exists>set_labels.
             snd (read_set_labels rt is_collision merged_lgr (before @ line # after) False False)
               = Inr set_labels \<and> placeholder \<in> set_labels)
       \<and> (\<exists>set_labels.
             snd (read_set_labels rt is_collision merged_lgr (before @ line # after) True False)
               = Inr set_labels
             \<and> (placeholder \<in> set_labels) =
                 fst (test_label_eligible merged_lgr (map py_ord placeholder)))"
proof -
  let ?db = "unicode_database merged_lgr"
  have step: "read_label rt ?db False k l0 = Yield placeholder" for k
    using nc lab ne fail ph by (auto simp: read_label_def Let_def)
  have yields: "fst (read_labels rt (before @ line # after) ?db False k)
           = fst (read_labels rt before ?db False k) @ placeholder
                # fst (read_labels rt after ?db False k)" for k
    using step[of k] l0
    by (simp add: read_labels_def read_stripped_lenient_append)
  have A: "read_labels rt (before @ line # after) ?db False keep_commented
           = (fst (read_labels rt before ?db False keep_commented) @ placeholder
                # fst (read_labels rt after ?db False keep_commented), None)"
    using yields[of keep_commented]
    by (simp add: prod_eq_iff read_labels_def read_stripped_lenient_snd)
  have B: "\<exists>set_labels.
             snd (read_set_labels rt is_collision merged_lgr (before @ line # after) False False)
               = Inr set_labels \<and> placeholder \<in> set_labels"
    using yields[of False]
    by (simp add: read_set_labels_def Let_def add_labels_lenient read_labels_def
          read_stripped_lenient_snd)
  have C: "\<exists>set_labels.
             snd (read_set_labels rt is_collision merged_lgr (before @ line # after) True False)
               = Inr set_labels
             \<and> (placeholder \<in> set_labels) =
                 fst (test_label_eligible merged_lgr (map py_ord placeholder))"
    using yields[of False]
    by (auto simp: read_set_labels_def Let_def add_labels_lenient read_labels_def
          read_stripped_lenient_snd)
  from A B C show ?thesis by blast
qed

theorem placeholder_is_a_candidate_label_witness:
  "parse_label_input plain_runtime (u ''xn--a'') (idna_decode_label (unicode_database sample_lgr)) False
     = Inl (DecoderError (u ''decoding failed''))
   \<and> read_labels plain_runtime [u ''abc'' @ [10], u ''xn--a # note'' @ [10]]
       (unicode_database sample_lgr) False False
     = ([u ''abc'', u ''xn--a: decoding failed''], None)
   \<and> snd (read_set_labels plain_runtime sample_is_collision sample_lgr
            [u ''abc'' @ [10], u ''xn--a # note'' @ [10]] False False)
     = Inr {u ''abc'', u ''xn--a: decoding failed''}
   \<and> snd (read_set_labels plain_runtime sample_is_collision sample_lgr
            [u ''abc'' @ [10], u ''xn--a # note'' @ [10]] True False)
     = Inr {u ''abc''}"
proof -
  have l0: "u ''xn--a # note'' = strip plain_runtime (u ''xn--a # note'' @ [10])"
    by (simp add: u_def strip_def is_space_def)
  have nc: "\<not> (35 \<in> set (u ''xn--a # note'') \<and> find_char 35 (u ''xn--a # note'') = 0)"
    by (simp add: u_def find_char_def)
  have lab: "u ''xn--a'' = (if 35 \<in> set (u ''xn--a # note'')
      then strip plain_runtime (take (find_char 35 (u ''xn--a # note'')) (u ''xn--a # note''))
      else u ''xn--a # note'')"
    by (simp add: u_def find_char_def strip_def is_space_def)
  have ne: "u ''xn--a'' \<noteq> []" by (simp add: u_def)
  have fail: "parse_label_input plain_runtime (u ''xn--a'')
      (idna_decode_label (unicode_database sample_lgr)) False = Inl (DecoderError (u ''decoding failed''))"
    by (simp add: eval_simps)
  have ph: "u ''xn--a: decoding failed''
      = u ''xn--a'' @ u '': '' @ unicode_of plain_runtime (DecoderError (u ''decoding failed''))"
    by (simp add: u_def unicode_of_def)
  have b: "fst (read_labels plain_runtime [u ''abc'' @ [10]] (unicode_database sample_lgr) False False)
             = [u ''abc'']"
    by (simp add: eval_simps)
  have a: "fst (read_labels plain_runtime [] (unicode_database sample_lgr) False False) = []"
    by (simp add: read_labels_def)
  have inel: "\<not> fst (test_label_eligible sample_lgr (map py_ord (u ''xn--a: decoding failed'')))"
    by (simp add: u_def sample_lgr_def py_ord_def)
  note inst = placeholder_is_a_candidate_label[OF l0 nc lab ne fail ph, of "[u ''abc'' @ [10]]" "[]" False sample_is_collision]
  have A: "read_labels plain_runtime [u ''abc'' @ [10], u ''xn--a # note'' @ [10]]
             (unicode_database sample_lgr) False False
             = ([u ''abc'', u ''xn--a: decoding failed''], None)"
    using inst[THEN conjunct1] unfolding a b by simp
  have B': "snd (read_set_labels plain_runtime sample_is_collision sample_lgr
            [u ''abc'' @ [10], u ''xn--a # note'' @ [10]] False False)
     = Inr {u ''abc'', u ''xn--a: decoding failed''}"
    unfolding read_set_labels_def A Let_def
    by (simp add: u_def py_ord_def sample_lgr_def insert_commute)
  have C': "snd (read_set_labels plain_runtime sample_is_collision sample_lgr
            [u ''abc'' @ [10], u ''xn--a # note'' @ [10]] True False)
     = Inr {u ''abc''}"
    unfolding read_set_labels_def A Let_def
    by (simp add: u_def py_ord_def sample_lgr_def sample_is_collision_def)
  from fail A B' C' show ?thesis by blast
qed

end
